theory Spec2Isabelle
  imports Complex_Main "HOL-Library.Sublist"
begin

section \<open>JavaScript values and built-ins used by the component\<close>

text \<open>
  The component \<^verbatim>\<open>GeoScoreTool\<close> handles strings, numbers and parsed JSON. A parsed
  JSON document is a JavaScript value; \<open>Undefined\<close> is what reading a missing property
  gives. An object carries its own enumerable properties in the order in which
  \<^verbatim>\<open>Object.keys\<close> enumerates them. Numbers are modelled by the reals.
\<close>

datatype js_value =
    Undefined
  | Null
  | Bool bool
  | Num real
  | Str string
  | Arr "js_value list"
  | Obj "(string \<times> js_value) list"

text \<open>A thrown value: every exception the component sees is an \<^verbatim>\<open>Error\<close> with a message.\<close>

datatype js_error = Error (message: string)

text \<open>
  The outcome of a computation that may throw, or of an awaited promise that may reject,
  is \<open>js_error + 'a\<close>. \<open>and_then\<close> is the sequencing of statements inside a
  \<^verbatim>\<open>try\<close> block (and of \<^verbatim>\<open>await\<close>): the first failure skips the rest.
\<close>

fun and_then :: "js_error + 'a \<Rightarrow> ('a \<Rightarrow> js_error + 'b) \<Rightarrow> js_error + 'b" where
  "and_then (Inl e) k = Inl e"
| "and_then (Inr v) k = k v"

text \<open>
  Built-ins of the runtime that the component calls and that are not part of the
  repository: \<^verbatim>\<open>new URL(s).hostname\<close> (\<open>None\<close> when the constructor throws),
  \<^verbatim>\<open>String.prototype.toLowerCase\<close>, the conversion to string done by
  \<^verbatim>\<open>new Error(v)\<close>, and the message of the \<^verbatim>\<open>TypeError\<close> thrown when a property of
  \<^verbatim>\<open>null\<close> or \<^verbatim>\<open>undefined\<close> is read.
\<close>

record platform =
  URL_hostname :: "string \<Rightarrow> string option"
  toLowerCase :: "string \<Rightarrow> string"
  ToString :: "js_value \<Rightarrow> string"
  property_TypeError :: "js_value \<Rightarrow> string \<Rightarrow> string"

text \<open>JavaScript truthiness, as used by \<^verbatim>\<open>!v\<close> and \<^verbatim>\<open>v || w\<close>.\<close>

fun truthy :: "js_value \<Rightarrow> bool" where
  "truthy Undefined = False"
| "truthy Null = False"
| "truthy (Bool b) = b"
| "truthy (Num x) = (x \<noteq> 0)"
| "truthy (Str s) = (s \<noteq> [])"
| "truthy (Arr xs) = True"
| "truthy (Obj kvs) = True"

text \<open>
  Property access \<^verbatim>\<open>v.k\<close>, for the property names the component reads
  (\<^verbatim>\<open>query\<close>, \<^verbatim>\<open>pages\<close>, \<^verbatim>\<open>detail\<close> and the fields of a score): it throws on
  \<^verbatim>\<open>null\<close> and \<^verbatim>\<open>undefined\<close>, and gives \<^verbatim>\<open>undefined\<close> when the property is missing.
\<close>

fun get_property :: "platform \<Rightarrow> js_value \<Rightarrow> string \<Rightarrow> js_error + js_value" where
  "get_property P Undefined k = Inl (Error (property_TypeError P Undefined k))"
| "get_property P Null k = Inl (Error (property_TypeError P Null k))"
| "get_property P (Obj kvs) k = Inr (case map_of kvs k of Some v \<Rightarrow> v | None \<Rightarrow> Undefined)"
| "get_property P v k = Inr Undefined"

text \<open>The decimal numeral of an array index, as \<^verbatim>\<open>Object.keys\<close> prints it.\<close>

fun decimal :: "nat \<Rightarrow> string" where
  "decimal n =
     (if n < 10 then [''0123456789'' ! n]
      else decimal (n div 10) @ [''0123456789'' ! (n mod 10)])"

declare decimal.simps [simp del]

text \<open>
  \<^verbatim>\<open>Object.keys(v)\<close>: the property names of an object, the indices of an array or of a
  string, nothing for a number or a boolean, and a \<^verbatim>\<open>TypeError\<close> for \<^verbatim>\<open>null\<close> and
  \<^verbatim>\<open>undefined\<close>.
\<close>

fun Object_keys :: "platform \<Rightarrow> js_value \<Rightarrow> js_error + string list" where
  "Object_keys P Undefined = Inl (Error (property_TypeError P Undefined []))"
| "Object_keys P Null = Inl (Error (property_TypeError P Null []))"
| "Object_keys P (Obj kvs) = Inr (map fst kvs)"
| "Object_keys P (Arr xs) = Inr (map decimal [0..<length xs])"
| "Object_keys P (Str s) = Inr (map decimal [0..<length s])"
| "Object_keys P v = Inr []"

text \<open>Array indexing \<^verbatim>\<open>xs[i]\<close>: \<open>None\<close> stands for \<^verbatim>\<open>undefined\<close> out of range.\<close>

definition index :: "'a list \<Rightarrow> nat \<Rightarrow> 'a option" where
  "index xs i = (if i < length xs then Some (xs ! i) else None)"

text \<open>
  \<^verbatim>\<open>s.split(sep)\<close> for a separator of one character: the pieces between the
  occurrences of the separator; there is always at least one piece.
\<close>

fun split :: "char \<Rightarrow> string \<Rightarrow> string list" where
  "split sep [] = [[]]"
| "split sep (c # cs) =
     (if c = sep then [] # split sep cs
      else (case split sep cs of
              [] \<Rightarrow> [[c]]
            | p # ps \<Rightarrow> (c # p) # ps))"

text \<open>
  \<^verbatim>\<open>s.replace(pat, rep)\<close> with a string pattern: only the first occurrence of the
  pattern is replaced, wherever it is.
\<close>

fun replace :: "string \<Rightarrow> string \<Rightarrow> string \<Rightarrow> string" where
  "replace [] pat rep = (if pat = [] then rep else [])"
| "replace (c # cs) pat rep =
     (if prefix pat (c # cs) then rep @ drop (length pat) (c # cs)
      else c # replace cs pat rep)"

text \<open>\<^verbatim>\<open>s.includes(pat)\<close>: the pattern occurs at some position of the string.\<close>

fun includes_str :: "string \<Rightarrow> string \<Rightarrow> bool" where
  "includes_str [] pat = (pat = [])"
| "includes_str (c # cs) pat = (prefix pat (c # cs) \<or> includes_str cs pat)"

section \<open>Double-precision numbers\<close>

text \<open>
  \<^verbatim>\<open>Math.random()\<close> returns a double, and \<^verbatim>\<open>Math.random() * 25\<close> is the product of
  two doubles, rounded to the nearest double (ties to the even significand). The
  non-negative doubles that occur here are written \<open>mantissa / 2 ^ exponent\<close>; a
  number has several such writings, and none is preferred.
\<close>

record double =
  mantissa :: nat
  exponent :: nat

text \<open>
  What \<^verbatim>\<open>Math.random()\<close> may return: a double that is at least 0 and less than 1, that
  is, at most 53 significant bits on the grid of \<open>2 ^ - 1074\<close>.
\<close>

definition is_random :: "double \<Rightarrow> bool" where
  "is_random d =
     (mantissa d < 2 ^ 53 \<and> exponent d \<le> 1074 \<and> mantissa d < 2 ^ exponent d)"

text \<open>The number of low bits that a natural number has beyond 53.\<close>

fun excess :: "nat \<Rightarrow> nat" where
  "excess n = (if n < 2 ^ 53 then 0 else Suc (excess (n div 2)))"

declare excess.simps [simp del]

text \<open>\<open>n / 2 ^ s\<close> rounded to the nearest natural number, a tie going to the even one.\<close>

definition round_half_even :: "nat \<Rightarrow> nat \<Rightarrow> nat" where
  "round_half_even n s =
     (let q = n div 2 ^ s; r = n mod 2 ^ s
      in if 2 ^ s < 2 * r \<or> (2 * r = 2 ^ s \<and> odd q) then q + 1 else q)"

text \<open>
  \<^verbatim>\<open>d * k\<close> for a double \<open>d\<close> and a small natural number \<open>k\<close> (here 25, 10 and 5,
  which are doubles): the exact product \<open>mantissa d * k / 2 ^ exponent d\<close> is rounded to
  53 significant bits. When the bits dropped are more than the exponent, the result is a
  natural number and is written with exponent 0.
\<close>

definition multiply :: "double \<Rightarrow> nat \<Rightarrow> double" where
  "multiply d k =
     (let n = mantissa d * k;
          s = excess n;
          q = round_half_even n s
      in \<lparr>mantissa = q * 2 ^ (s - exponent d), exponent = exponent d - s\<rparr>)"

definition Math_floor :: "double \<Rightarrow> nat" where
  "Math_floor d = mantissa d div 2 ^ exponent d"

section \<open>The network and the random source\<close>

datatype request = GET string | POST string js_value

text \<open>
  A response as the component reads it: the flag \<^verbatim>\<open>ok\<close>, and the outcomes of
  \<^verbatim>\<open>response.json()\<close> and \<^verbatim>\<open>response.text()\<close>, each of which may reject.
\<close>

record response =
  ok :: bool
  json_body :: "js_error + js_value"
  text_body :: "js_error + string"

text \<open>
  What the outside answers during one calculation: the outcome of each \<^verbatim>\<open>fetch\<close>
  (a rejection or a response), and the three successive values of \<^verbatim>\<open>Math.random()\<close>.
\<close>

record world =
  fetch :: "request \<Rightarrow> js_error + response"
  random1 :: double
  random2 :: double
  random3 :: double

section \<open>The component\<close>

text \<open>
  The state hooks of \<^verbatim>\<open>GeoScoreTool\<close>, with their initial values. A setter replaces
  the value of its hook in the state and schedules a render; the handlers of a render
  read the values that this render was given.
\<close>

record component =
  url :: string
  scoreData :: js_value
  logoUrl :: string
  isCalculating :: bool
  lastCalculatedUrl :: string
  error :: string

definition initial :: component where
  "initial = \<lparr>url = [], scoreData = Null, logoUrl = [], isCalculating = False,
     lastCalculatedUrl = [], error = []\<rparr>"

definition setUrl :: "string \<Rightarrow> component \<Rightarrow> component" where
  "setUrl v st = st\<lparr>url := v\<rparr>"

subsection \<open>Identity derivation\<close>

definition extractBrandName :: "platform \<Rightarrow> string \<Rightarrow> string" where
  "extractBrandName P inputUrl =
     (case URL_hostname P inputUrl of
        Some h \<Rightarrow>
          (let hostname = replace h ''www.'' [];
               parts = split CHR ''.'' hostname
           in if length parts \<ge> 2 then parts ! 0 else hostname)
      | None \<Rightarrow> split CHR ''.'' (toLowerCase P inputUrl) ! 0)"

definition fetchLogo :: "platform \<Rightarrow> string \<Rightarrow> string" where
  "fetchLogo P inputUrl =
     (case URL_hostname P inputUrl of
        Some domain \<Rightarrow> ''https://www.google.com/s2/favicons?sz=128&domain='' @ domain
      | None \<Rightarrow> [])"

subsection \<open>The two checks of the fallback\<close>

definition wikipedia_request :: "string \<Rightarrow> request" where
  "wikipedia_request brand =
     GET (''https://en.wikipedia.org/w/api.php?action=query&format=json&origin=*&titles=''
          @ brand)"

definition checkWikipedia :: "platform \<Rightarrow> world \<Rightarrow> string \<Rightarrow> int" where
  "checkWikipedia P w brand =
     (case
        and_then (fetch w (wikipedia_request brand)) (\<lambda>response.
        and_then (json_body response) (\<lambda>data.
        and_then (get_property P data ''query'') (\<lambda>query.
        and_then (get_property P query ''pages'') (\<lambda>pages.
          if \<not> truthy pages then Inr 0
          else and_then (Object_keys P pages) (\<lambda>keys.
            Inr (if index keys 0 = Some ''-1'' then 0 else 20))))))
      of Inr v \<Rightarrow> v
       | Inl e \<Rightarrow> 0)"

definition relay_request :: "string \<Rightarrow> request" where
  "relay_request inputUrl = GET (''https://cors-anywhere.herokuapp.com/'' @ inputUrl)"

definition checkSchemaMarkup :: "world \<Rightarrow> string \<Rightarrow> int" where
  "checkSchemaMarkup w inputUrl =
     (case
        and_then (fetch w (relay_request inputUrl)) (\<lambda>res.
        and_then (text_body res) (\<lambda>t.
          Inr (if includes_str t ''schema.org'' then 5 else 0)))
      of Inr v \<Rightarrow> v
       | Inl e \<Rightarrow> 0)"

subsection \<open>The fallback score\<close>

text \<open>
  \<open>calculateLocalScore P w u st\<close>: the fallback, run by the closure that captured the
  URL \<open>u\<close>, on the state \<open>st\<close>. It never touches \<open>error\<close> or \<open>isCalculating\<close>.
  \<^verbatim>\<open>Math.floor(Math.random() * 25) + 10\<close> is computed from the double that the world
  gives for \<^verbatim>\<open>Math.random()\<close>, with the product rounded as the processor rounds it;
  the sub-scores are integers.
\<close>

definition calculateLocalScore :: "platform \<Rightarrow> world \<Rightarrow> string \<Rightarrow> component \<Rightarrow> component" where
  "calculateLocalScore P w u st =
     (let brand = extractBrandName P u;
          logo = fetchLogo P u;
          recall = int (Math_floor (multiply (random1 w) 25)) + 10;
          wiki = checkWikipedia P w brand;
          schemaScore = checkSchemaMarkup w u;
          seo = int (Math_floor (multiply (random2 w) 10)) + 10;
          platforms = min 15 (int (Math_floor (multiply (random3 w) 5)) + 5 + schemaScore);
          total = recall + wiki + seo + platforms
      in st\<lparr>logoUrl := logo,
            scoreData := Obj
              [(''brand'', Str brand),
               (''recall'', Num (of_int recall)),
               (''wiki'', Num (of_int wiki)),
               (''seo'', Num (of_int seo)),
               (''platforms'', Num (of_int platforms)),
               (''total'', Num (of_int total)),
               (''breakdown'', Obj
                  [(''recall'', Num (of_int recall)),
                   (''wiki'', Num (of_int wiki)),
                   (''seo'', Num (of_int seo)),
                   (''platforms'', Num (of_int platforms))]),
               (''suggestions'', Arr []),
               (''history_links'', Arr [])]\<rparr>)"

subsection \<open>The calculation\<close>

definition score_request :: "platform \<Rightarrow> string \<Rightarrow> request" where
  "score_request P u =
     POST ''/api/check-score''
       (Obj [(''brand_name'', Str (extractBrandName P u)), (''url'', Str u)])"

text \<open>
  \<^verbatim>\<open>calculateScore\<close> is asynchronous. Its first part runs when it is called, up to the
  \<^verbatim>\<open>fetch\<close>: the guard, the three state updates, and the request that is sent
  (\<open>None\<close> when the guard returned). The function is a closure of one render: the
  \<^verbatim>\<open>url\<close>, \<^verbatim>\<open>isCalculating\<close> and \<^verbatim>\<open>lastCalculatedUrl\<close> that it reads are the constants
  of that render, the state \<open>r\<close> that was rendered, while its setters act on the
  state \<open>st\<close> of the moment. The two differ when a state update has not been rendered yet.
\<close>

definition calculateScore_call ::
  "platform \<Rightarrow> component \<Rightarrow> component \<Rightarrow> component \<times> request option" where
  "calculateScore_call P r st =
     (if isCalculating r \<or> url r = lastCalculatedUrl r then (st, None)
      else (st\<lparr>isCalculating := True, error := [], lastCalculatedUrl := url r\<rparr>,
            Some (score_request P (url r))))"

text \<open>The call made when the component has been rendered since the last state update.\<close>

definition calculateScore_begin :: "platform \<Rightarrow> component \<Rightarrow> component \<times> request option" where
  "calculateScore_begin P st = calculateScore_call P st st"

text \<open>
  What the \<^verbatim>\<open>try\<close> block computes once the request has been sent by the closure
  that captured the URL \<open>u\<close>: the parsed body, or the exception thrown on the way.
\<close>

definition remote_score :: "platform \<Rightarrow> world \<Rightarrow> string \<Rightarrow> js_error + js_value" where
  "remote_score P w u =
     and_then (fetch w (score_request P u)) (\<lambda>response.
       if \<not> ok response then
         and_then (json_body response) (\<lambda>errorData.
         and_then (get_property P errorData ''detail'') (\<lambda>detail.
           Inl (Error (case (if truthy detail then detail else Str ''Failed to calculate score'') of
                         Str s \<Rightarrow> s
                       | v \<Rightarrow> ToString P v))))
       else json_body response)"

text \<open>
  The second part runs when the request settles, on the state \<open>st\<close> of that moment:
  the \<^verbatim>\<open>try\<close> block, the \<^verbatim>\<open>catch\<close> block with the fallback, and \<^verbatim>\<open>finally\<close>.
\<close>

definition calculateScore_settle :: "platform \<Rightarrow> world \<Rightarrow> string \<Rightarrow> component \<Rightarrow> component" where
  "calculateScore_settle P w u st =
     (case remote_score P w u of
        Inr data \<Rightarrow> st\<lparr>scoreData := data, logoUrl := fetchLogo P u\<rparr>
      | Inl err \<Rightarrow>
          calculateLocalScore P w u
            (st\<lparr>error := (if message err \<noteq> [] then message err
                           else ''An error occurred while calculating the score'')\<rparr>))
     \<lparr>isCalculating := False\<rparr>"

text \<open>A whole calculation, when nothing else happens before the request settles.\<close>

definition calculateScore :: "platform \<Rightarrow> world \<Rightarrow> component \<Rightarrow> component" where
  "calculateScore P w st =
     (case calculateScore_begin P st of
        (st1, None) \<Rightarrow> st1
      | (st1, Some rq) \<Rightarrow> calculateScore_settle P w (url st) st1)"

text \<open>
  A click on the button \<^verbatim>\<open>Calculate Score\<close> as the render of \<open>r\<close> shows it: it is
  disabled when, in that render, a calculation runs or the URL is empty, and calls the
  \<^verbatim>\<open>calculateScore\<close> of that render otherwise. This is the only call of
  \<^verbatim>\<open>calculateScore\<close>.
\<close>

definition calculate_button ::
  "platform \<Rightarrow> component \<Rightarrow> component \<Rightarrow> component \<times> request option" where
  "calculate_button P r st =
     (if isCalculating r \<or> url r = [] then (st, None) else calculateScore_call P r st)"

definition resetScore :: "component \<Rightarrow> component" where
  "resetScore st = st\<lparr>url := [], scoreData := Null, logoUrl := [],
     lastCalculatedUrl := [], error := []\<rparr>"

section \<open>Sample inputs\<close>

text \<open>
  A runtime, used to evaluate the definitions on sample inputs: it resolves the host names
  of five URLs as the URL parser does (lower-casing the host), rejects every other
  string, and lower-cases the letters A to Z. The other strings used below, the empty
  string and two strings with a space and no scheme, are rejected by the URL parser too.
\<close>

definition ascii_lower :: "char \<Rightarrow> char" where
  "ascii_lower c =
     (case map_of (zip ''ABCDEFGHIJKLMNOPQRSTUVWXYZ'' ''abcdefghijklmnopqrstuvwxyz'') c of
        Some l \<Rightarrow> l
      | None \<Rightarrow> c)"

definition sample_platform :: platform where
  "sample_platform =
     \<lparr>URL_hostname = (\<lambda>s.
        if s = ''https://www.Example.com/page'' then Some ''www.example.com''
        else if s = ''https://example.com'' then Some ''example.com''
        else if s = ''https://example.com/'' then Some ''example.com''
        else if s = ''https://awww.example.com'' then Some ''awww.example.com''
        else if s = ''http://localhost:5173'' then Some ''localhost''
        else None),
      toLowerCase = map ascii_lower,
      ToString = (\<lambda>v. ''[object Object]''),
      property_TypeError = (\<lambda>v k. ''Cannot read properties of null'')\<rparr>"

text \<open>
  Values of \<^verbatim>\<open>Math.random()\<close>: 1/2, 1/4, 7/8, the doubles nearest to 0.24, 0.7 and 0.6,
  zero, and the largest double below 1.
\<close>

definition one_half :: double where
  "one_half = \<lparr>mantissa = 1, exponent = 1\<rparr>"

definition one_quarter :: double where
  "one_quarter = \<lparr>mantissa = 1, exponent = 2\<rparr>"

definition seven_eighths :: double where
  "seven_eighths = \<lparr>mantissa = 7, exponent = 3\<rparr>"

definition double_0_24 :: double where
  "double_0_24 = \<lparr>mantissa = 1080863910568919, exponent = 52\<rparr>"

definition double_0_7 :: double where
  "double_0_7 = \<lparr>mantissa = 3152519739159347, exponent = 52\<rparr>"

definition double_0_6 :: double where
  "double_0_6 = \<lparr>mantissa = 5404319552844595, exponent = 53\<rparr>"

definition double_zero :: double where
  "double_zero = \<lparr>mantissa = 0, exponent = 0\<rparr>"

definition largest_below_1 :: double where
  "largest_below_1 = \<lparr>mantissa = 9007199254740991, exponent = 53\<rparr>"

text \<open>
  A response with a status that is not a success, whose \<^verbatim>\<open>json()\<close> has the outcome
  \<open>body\<close>.
\<close>

definition error_response :: "js_error + js_value \<Rightarrow> response" where
  "error_response body =
     \<lparr>ok = False, json_body = body, text_body = Inl (Error ''body stream already read'')\<rparr>"

text \<open>
  A world in which the scoring endpoint answers with such a response, the encyclopedia
  knows no page of the brand, and the relay returns a page with structured data.
\<close>

definition failing_world :: "js_error + js_value \<Rightarrow> world" where
  "failing_world body =
     \<lparr>fetch = (\<lambda>rq. case rq of
          POST path payload \<Rightarrow> Inr (error_response body)
        | GET path \<Rightarrow>
            (if prefix ''https://en.wikipedia.org/'' path
             then Inr \<lparr>ok = True,
                       json_body = Inr (Obj [(''batchcomplete'', Str []),
                         (''query'', Obj [(''pages'', Obj [(''-1'', Obj [(''missing'', Str [])])])])]),
                       text_body = Inl (Error ''body stream already read'')\<rparr>
             else Inr \<lparr>ok = True, json_body = Inl (Error ''Unexpected token <''),
                       text_body = Inr ''<html itemscope itemtype=https://schema.org/Organization>''\<rparr>)),
      random1 = one_half, random2 = one_quarter, random3 = seven_eighths\<rparr>"

definition quota_world :: world where
  "quota_world = failing_world (Inr (Obj [(''detail'', Str ''quota exceeded'')]))"

definition garbled_world :: world where
  "garbled_world = failing_world (Inl (Error ''Unexpected end of JSON input''))"

text \<open>
  A world in which the scoring endpoint answers with a score, the encyclopedia has a
  page of the brand, and the relay cannot be reached.
\<close>

definition healthy_world :: world where
  "healthy_world =
     \<lparr>fetch = (\<lambda>rq. case rq of
          POST path payload \<Rightarrow>
            Inr \<lparr>ok = True,
                 json_body = Inr (Obj
                   [(''brand'', Str ''example''),
                    (''total'', Num 72),
                    (''breakdown'', Obj [(''recall'', Num 30), (''wiki'', Num 20),
                       (''seo'', Num 12), (''platforms'', Num 10)]),
                    (''suggestions'', Arr [Str ''Add structured data'']),
                    (''history_links'', Arr
                       [Obj [(''url'', Str ''https://example.com/a''), (''title'', Str ''A'')],
                        Obj [(''url'', Str ''https://example.com/b''), (''title'', Str ''B'')]])]),
                 text_body = Inl (Error ''body stream already read'')\<rparr>
        | GET path \<Rightarrow>
            (if prefix ''https://en.wikipedia.org/'' path
             then Inr \<lparr>ok = True,
                       json_body = Inr (Obj [(''query'',
                         Obj [(''pages'', Obj [(''9228'', Obj [(''title'', Str ''Example'')])])])]),
                       text_body = Inl (Error ''body stream already read'')\<rparr>
             else Inl (Error ''Failed to fetch''))),
      random1 = double_zero, random2 = one_half, random3 = one_quarter\<rparr>"

text \<open>
  Three more worlds in which the scoring endpoint fails. In the first the random values
  are the doubles nearest to 0.24, 0.7 and 0.6, whose products with 25, 10 and 5 round up
  to 6, 7 and 3. In the second nothing can be reached and the random values are zero. In
  the third the encyclopedia has a page, the site has the marker and the random values
  are the largest.
\<close>

definition rounding_world :: world where
  "rounding_world =
     quota_world\<lparr>random1 := double_0_24, random2 := double_0_7, random3 := double_0_6\<rparr>"

definition offline_world :: world where
  "offline_world =
     \<lparr>fetch = (\<lambda>rq. Inl (Error ''Failed to fetch'')),
      random1 = double_zero, random2 = double_zero, random3 = double_zero\<rparr>"

definition best_world :: world where
  "best_world =
     \<lparr>fetch = (\<lambda>rq. case rq of
          POST path payload \<Rightarrow> Inr (error_response (Inr (Obj [])))
        | GET path \<Rightarrow>
            (if prefix ''https://en.wikipedia.org/'' path
             then Inr \<lparr>ok = True,
                       json_body = Inr (Obj [(''query'',
                         Obj [(''pages'', Obj [(''9228'', Obj [(''title'', Str ''Example'')])])])]),
                       text_body = Inl (Error ''body stream already read'')\<rparr>
             else Inr \<lparr>ok = True, json_body = Inl (Error ''Unexpected token <''),
                       text_body = Inr ''<html itemscope itemtype=https://schema.org/Organization>''\<rparr>)),
      random1 = largest_below_1, random2 = largest_below_1, random3 = largest_below_1\<rparr>"

text \<open>
  States of the component: the URL has been typed; a calculation for it has been started;
  that calculation has ended with the score of the endpoint.
\<close>

definition typed_state :: component where
  "typed_state = setUrl ''https://example.com'' initial"

definition inflight_state :: component where
  "inflight_state = fst (calculateScore_begin sample_platform typed_state)"

definition done_state :: component where
  "done_state = calculateScore sample_platform healthy_world typed_state"

section \<open>The brand as the specification words it\<close>

text \<open>
  The specification describes the brand of a parsed URL as: take the host name, strip a
  leading \<^verbatim>\<open>www.\<close>, split on the dot, and return the first label if there are at
  least two labels, else the whole host name. \<open>deriveBrand_spec\<close> follows these words;
  it is compared with \<open>extractBrandName\<close> below.
\<close>

definition strip_leading :: "string \<Rightarrow> string \<Rightarrow> string" where
  "strip_leading p s = (if prefix p s then drop (length p) s else s)"

definition deriveBrand_spec :: "string \<Rightarrow> string" where
  "deriveBrand_spec h =
     (let stripped = strip_leading ''www.'' h;
          labels = split CHR ''.'' stripped
      in if length labels \<ge> 2 then labels ! 0 else stripped)"

section \<open>Facts about the built-ins\<close>

lemma and_then_Inr_iff: "and_then m k = Inr v \<longleftrightarrow> (\<exists>x. m = Inr x \<and> k x = Inr v)"
  by (cases m) simp_all

lemma and_then_Inl_iff:
  "and_then m k = Inl e \<longleftrightarrow> m = Inl e \<or> (\<exists>x. m = Inr x \<and> k x = Inl e)"
  by (cases m) auto

lemma split_not_Nil: "split sep s \<noteq> []"
  by (induction s) (auto split: list.splits)

lemma split_first: "split sep s ! 0 = takeWhile (\<lambda>c. c \<noteq> sep) s"
  by (induction s) (auto split: list.splits simp: split_not_Nil)

lemma includes_str_iff: "includes_str s pat \<longleftrightarrow> (\<exists>pre post. s = pre @ pat @ post)"
proof -
  have "includes_str s pat \<longleftrightarrow> sublist pat s"
    by (induction s) (simp_all add: sublist_Cons_right)
  then show ?thesis by (simp add: sublist_def)
qed

subsection \<open>Rounded products\<close>

lemma excess_small: "n < 2 ^ 53 \<Longrightarrow> excess n = 0"
  by (simp add: excess.simps [of n])

lemma excess_large: "\<not> n < 2 ^ 53 \<Longrightarrow> excess n = Suc (excess (n div 2))"
  by (simp add: excess.simps [of n])

text \<open>Dropping \<open>excess n\<close> bits leaves at most 53 bits, and no fewer bits would do.\<close>

lemma excess_upper: "n < 2 ^ 53 * 2 ^ excess n"
proof (induction n rule: excess.induct)
  case (1 n)
  show ?case
  proof (cases "n < 2 ^ 53")
    case True
    then show ?thesis by (simp add: excess_small)
  next
    case False
    then have "n div 2 < 2 ^ 53 * 2 ^ excess (n div 2)" using 1 by simp
    then have "n < 2 * (2 ^ 53 * 2 ^ excess (n div 2))" by linarith
    with False show ?thesis by (simp add: excess_large)
  qed
qed

lemma excess_lower: "0 < excess n \<Longrightarrow> 2 ^ 53 * 2 ^ (excess n - 1) \<le> n"
proof (induction n rule: excess.induct)
  case (1 n)
  show ?case
  proof (cases "n < 2 ^ 53")
    case True
    with 1(2) show ?thesis by (simp add: excess_small)
  next
    case False
    then have e: "excess n = Suc (excess (n div 2))" by (rule excess_large)
    show ?thesis
    proof (cases "excess (n div 2)")
      case 0
      with e False show ?thesis by simp
    next
      case (Suc j)
      then have "2 ^ 53 * 2 ^ (excess (n div 2) - 1) \<le> n div 2" using 1(1) False by simp
      then have "2 * (2 ^ 53 * 2 ^ j) \<le> n" using Suc by simp
      with e Suc show ?thesis by simp
    qed
  qed
qed

text \<open>The rounded value is within half a unit of the last place kept.\<close>

lemma round_half_even_upper: "2 * (round_half_even n s * 2 ^ s) \<le> 2 * n + 2 ^ s"
proof -
  define q where "q = n div 2 ^ s"
  define r where "r = n mod 2 ^ s"
  have n: "n = q * 2 ^ s + r" unfolding q_def r_def by (rule div_mult_mod_eq [symmetric])
  show ?thesis
  proof (cases "2 ^ s < 2 * r \<or> (2 * r = 2 ^ s \<and> odd q)")
    case True
    then have "round_half_even n s = q + 1"
      by (simp add: round_half_even_def Let_def q_def r_def)
    moreover from True have "(2::nat) ^ s \<le> 2 * r" by auto
    ultimately show ?thesis unfolding n by (simp add: algebra_simps)
  next
    case False
    then have "round_half_even n s = q"
      by (simp add: round_half_even_def Let_def q_def r_def)
    then show ?thesis unfolding n by (simp add: algebra_simps)
  qed
qed

lemma round_half_even_lower: "2 * n \<le> 2 * (round_half_even n s * 2 ^ s) + 2 ^ s"
proof -
  define q where "q = n div 2 ^ s"
  define r where "r = n mod 2 ^ s"
  have n: "n = q * 2 ^ s + r" unfolding q_def r_def by (rule div_mult_mod_eq [symmetric])
  have rs: "r < 2 ^ s" by (simp add: r_def)
  show ?thesis
  proof (cases "2 ^ s < 2 * r \<or> (2 * r = 2 ^ s \<and> odd q)")
    case True
    then have "round_half_even n s = q + 1"
      by (simp add: round_half_even_def Let_def q_def r_def)
    then show ?thesis unfolding n using rs by (simp add: algebra_simps)
  next
    case False
    then have "round_half_even n s = q"
      by (simp add: round_half_even_def Let_def q_def r_def)
    moreover from False have "2 * r \<le> 2 ^ s" by auto
    ultimately show ?thesis unfolding n by (simp add: algebra_simps)
  qed
qed

text \<open>The significand kept has at most 53 bits, or is \<open>2 ^ 53\<close>: the result is a double.\<close>

lemma round_half_even_fits: "round_half_even n (excess n) \<le> 2 ^ 53"
proof -
  have "n div 2 ^ excess n < 2 ^ 53"
    using excess_upper [of n] by (simp add: less_mult_imp_div_less)
  moreover have "round_half_even n (excess n) \<le> n div 2 ^ excess n + 1"
    by (simp add: round_half_even_def Let_def)
  ultimately show ?thesis by linarith
qed

text \<open>
  \<^verbatim>\<open>Math.floor(Math.random() * k)\<close> is one of \<open>0, \<dots>, k - 1\<close>: the product of a double
  below 1 with \<open>k\<close> never rounds up to \<open>k\<close>, because the largest double below 1 is
  \<open>1 - 2 ^ - 53\<close> and half a unit of the last place of the product is less than
  \<open>k * 2 ^ - 53\<close>.
\<close>

lemma floor_multiply_less:
  assumes m53: "mantissa d < 2 ^ 53" and m1: "mantissa d < 2 ^ exponent d" and k: "0 < k"
  shows "Math_floor (multiply d k) < k"
proof -
  define m where "m = mantissa d"
  define E where "E = exponent d"
  define n where "n = m * k"
  define s where "s = excess n"
  define q where "q = round_half_even n s"
  have small: "(2::nat) ^ s < 2 * k"
  proof (cases s)
    case 0
    with k show ?thesis by simp
  next
    case (Suc j)
    then have "2 ^ 53 * 2 ^ j \<le> n" using excess_lower [of n] by (simp add: s_def)
    also have "n < 2 ^ 53 * k" unfolding n_def using m53 k by (simp add: m_def)
    finally have "(2::nat) ^ j < k" by simp
    with Suc show ?thesis by simp
  qed
  have "m + 1 \<le> 2 ^ E" using m1 by (simp add: m_def E_def)
  then have "(m + 1) * k \<le> 2 ^ E * k" by (rule mult_le_mono1)
  then have nk: "n + k \<le> k * 2 ^ E" by (simp add: n_def algebra_simps)
  have "2 * (q * 2 ^ s) \<le> 2 * n + 2 ^ s" unfolding q_def by (rule round_half_even_upper)
  also have "\<dots> < 2 * n + 2 * k" using small by simp
  also have "\<dots> \<le> 2 * (k * 2 ^ E)" using nk by simp
  finally have main: "q * 2 ^ s < k * 2 ^ E" by simp
  have res: "multiply d k = \<lparr>mantissa = q * 2 ^ (s - E), exponent = E - s\<rparr>"
    by (simp add: multiply_def Let_def q_def s_def n_def m_def E_def)
  show ?thesis
  proof (cases "s \<le> E")
    case True
    then have "(2::nat) ^ E = 2 ^ (E - s) * 2 ^ s" by (simp add: power_add [symmetric])
    with main have "q * 2 ^ s < (k * 2 ^ (E - s)) * 2 ^ s" by (simp add: mult.assoc)
    then have "q < k * 2 ^ (E - s)" by simp
    then have "q div 2 ^ (E - s) < k" by (simp add: less_mult_imp_div_less)
    with True show ?thesis by (simp add: res Math_floor_def)
  next
    case False
    then have "(2::nat) ^ s = 2 ^ (s - E) * 2 ^ E" by (simp add: power_add [symmetric])
    with main have "(q * 2 ^ (s - E)) * 2 ^ E < k * 2 ^ E" by (simp add: mult.assoc)
    then have "q * 2 ^ (s - E) < k" by simp
    with False show ?thesis by (simp add: res Math_floor_def)
  qed
qed

lemma random_floor_less: "is_random d \<Longrightarrow> 0 < k \<Longrightarrow> Math_floor (multiply d k) < k"
  by (simp add: is_random_def floor_multiply_less)

lemma checkWikipedia_cases: "checkWikipedia P w b = 0 \<or> checkWikipedia P w b = 20"
  unfolding checkWikipedia_def
  by (auto split: sum.splits if_splits simp: and_then_Inr_iff)

lemma checkSchemaMarkup_cases: "checkSchemaMarkup w u = 0 \<or> checkSchemaMarkup w u = 5"
  unfolding checkSchemaMarkup_def
  by (auto split: sum.splits if_splits simp: and_then_Inr_iff)

lemma split_no_sep: "sep \<notin> set s \<Longrightarrow> split sep s = [s]"
  by (induction s) auto

lemma split_length_sep: "sep \<in> set s \<Longrightarrow> 2 \<le> length (split sep s)"
proof (induction s)
  case Nil
  then show ?case by simp
next
  case (Cons c cs)
  show ?case
  proof (cases "c = sep")
    case True
    then show ?thesis using split_not_Nil [of sep cs] by (cases "split sep cs") auto
  next
    case False
    with Cons show ?thesis by (auto split: list.splits)
  qed
qed

text \<open>
  The test on the number of labels changes nothing: a string with fewer than two labels
  has no dot and is its own first label.
\<close>

lemma first_label:
  "(let parts = split CHR ''.'' x in if length parts \<ge> 2 then parts ! 0 else x)
     = takeWhile (\<lambda>c. c \<noteq> CHR ''.'') x"
proof (cases "CHR ''.'' \<in> set x")
  case True
  then show ?thesis
    using split_length_sep [of "CHR ''.''" x] by (simp add: Let_def split_first)
next
  case False
  then have tw: "takeWhile (\<lambda>c. c \<noteq> CHR ''.'') x = x"
    by auto
  have "(let parts = split CHR ''.'' x in if length parts \<ge> 2 then parts ! 0 else x) = x"
    using False by (simp add: Let_def split_no_sep)
  then show ?thesis unfolding tw .
qed

text \<open>
  So the brand of a parsed URL is the first label of the host name from which the first
  \<^verbatim>\<open>www.\<close> has been removed, and the brand of the specification is the first label of
  the host name without its leading \<^verbatim>\<open>www.\<close>.
\<close>

lemma extractBrandName_parsed:
  assumes "URL_hostname P u = Some h"
  shows "extractBrandName P u = takeWhile (\<lambda>c. c \<noteq> CHR ''.'') (replace h ''www.'' [])"
  using assms first_label [of "replace h ''www.'' []"]
  by (simp add: extractBrandName_def Let_def)

lemma deriveBrand_spec_label:
  "deriveBrand_spec h = takeWhile (\<lambda>c. c \<noteq> CHR ''.'') (strip_leading ''www.'' h)"
  using first_label [of "strip_leading ''www.'' h"]
  by (simp add: deriveBrand_spec_def Let_def)

lemma replace_prefix:
  "prefix pat s \<Longrightarrow> pat \<noteq> [] \<Longrightarrow> replace s pat rep = rep @ drop (length pat) s"
  by (cases s) auto

lemma replace_absent: "\<not> sublist pat s \<Longrightarrow> replace s pat rep = s"
  by (induction s) (auto simp: sublist_Cons_right)

text \<open>
  The two agree on every host name in which \<^verbatim>\<open>www.\<close> is leading or does not occur.
\<close>

lemma extractBrandName_agrees_with_spec:
  assumes "URL_hostname P u = Some h"
      and "prefix ''www.'' h \<or> \<not> sublist ''www.'' h"
  shows "extractBrandName P u = deriveBrand_spec h"
proof -
  have "replace h ''www.'' [] = strip_leading ''www.'' h"
    using assms(2)
  proof
    assume "prefix ''www.'' h"
    then show ?thesis by (simp add: replace_prefix strip_leading_def)
  next
    assume a: "\<not> sublist ''www.'' h"
    then have "\<not> prefix ''www.'' h"
      using prefix_imp_sublist by blast
    with a show ?thesis by (simp add: replace_absent strip_leading_def)
  qed
  then show ?thesis
    using extractBrandName_parsed [OF assms(1)] by (simp add: deriveBrand_spec_label)
qed

subsection \<open>What the fallback stores\<close>

lemma local_breakdown:
  "get_property P (scoreData (calculateLocalScore P w u st)) ''breakdown'' =
     Inr (Obj [(''recall'', Num (of_int (int (Math_floor (multiply (random1 w) 25)) + 10))),
               (''wiki'', Num (of_int (checkWikipedia P w (extractBrandName P u)))),
               (''seo'', Num (of_int (int (Math_floor (multiply (random2 w) 10)) + 10))),
               (''platforms'',
                Num (of_int (min 15 (int (Math_floor (multiply (random3 w) 5)) + 5
                  + checkSchemaMarkup w u))))])"
  unfolding calculateLocalScore_def Let_def by simp

lemma local_total:
  "get_property P (scoreData (calculateLocalScore P w u st)) ''total'' =
     Inr (Num (of_int (int (Math_floor (multiply (random1 w) 25)) + 10
       + checkWikipedia P w (extractBrandName P u)
       + (int (Math_floor (multiply (random2 w) 10)) + 10)
       + min 15 (int (Math_floor (multiply (random3 w) 5)) + 5 + checkSchemaMarkup w u))))"
  unfolding calculateLocalScore_def Let_def by (simp del: of_int_add of_nat_add)

lemma local_error: "error (calculateLocalScore P w u st) = error st"
  by (simp add: calculateLocalScore_def Let_def)

subsection \<open>What the end of a calculation leaves\<close>

lemma settle_not_calculating: "\<not> isCalculating (calculateScore_settle P w u st)"
  by (simp add: calculateScore_settle_def calculateLocalScore_def Let_def split: sum.splits)

lemma settle_url: "url (calculateScore_settle P w u st) = url st"
  by (simp add: calculateScore_settle_def calculateLocalScore_def Let_def split: sum.splits)

lemma settle_last: "lastCalculatedUrl (calculateScore_settle P w u st) = lastCalculatedUrl st"
  by (simp add: calculateScore_settle_def calculateLocalScore_def Let_def split: sum.splits)

lemma remote_score_not_ok:
  assumes "fetch w (score_request P u) = Inr response" "\<not> ok response"
  shows "remote_score P w u =
     and_then (json_body response) (\<lambda>errorData.
         and_then (get_property P errorData ''detail'') (\<lambda>detail.
           Inl (Error (case (if truthy detail then detail else Str ''Failed to calculate score'') of
                         Str s \<Rightarrow> s
                       | v \<Rightarrow> ToString P v))))"
  using assms by (simp add: remote_score_def)

lemma remote_score_fails:
  assumes "fetch w (score_request P u) = Inr response" "\<not> ok response"
  shows "\<exists>e. remote_score P w u = Inl e"
  unfolding remote_score_not_ok [OF assms]
  by (cases "json_body response"; simp; case_tac "get_property P b ''detail''"; simp)

lemma settle_fallback:
  assumes "remote_score P w u = Inl e"
  shows "calculateScore_settle P w u st =
    (calculateLocalScore P w u
            (st\<lparr>error := (if message e \<noteq> [] then message e
                           else ''An error occurred while calculating the score'')\<rparr>))
     \<lparr>isCalculating := False\<rparr>"
  using assms by (simp add: calculateScore_settle_def)


section \<open>The fallback score\<close>

text \<open>
  C1. The score that the fallback \<^verbatim>\<open>calculateLocalScore\<close> stores has a breakdown with
  the four integer entries recall, wiki, seo and platforms, in that order; its total is
  their sum; platforms is at most 15; suggestions and history\_links are empty arrays.
  This holds whatever the network and the random source answer.
\<close>

theorem fallback_total_is_sum_of_breakdown:
  "\<exists>breakdown (recall::int) (wiki::int) (seo::int) (platforms::int).
     get_property P (scoreData (calculateLocalScore P w u st)) ''breakdown'' = Inr breakdown \<and>
     Object_keys P breakdown = Inr [''recall'', ''wiki'', ''seo'', ''platforms''] \<and>
     get_property P breakdown ''recall'' = Inr (Num (of_int recall)) \<and>
     get_property P breakdown ''wiki'' = Inr (Num (of_int wiki)) \<and>
     get_property P breakdown ''seo'' = Inr (Num (of_int seo)) \<and>
     get_property P breakdown ''platforms'' = Inr (Num (of_int platforms)) \<and>
     get_property P (scoreData (calculateLocalScore P w u st)) ''total''
       = Inr (Num (of_int (recall + wiki + seo + platforms))) \<and>
     platforms \<le> 15 \<and>
     get_property P (scoreData (calculateLocalScore P w u st)) ''suggestions'' = Inr (Arr []) \<and>
     get_property P (scoreData (calculateLocalScore P w u st)) ''history_links'' = Inr (Arr [])"
  unfolding calculateLocalScore_def Let_def
  by (simp del: of_int_add)

text \<open>
  The same on a sample: the scoring endpoint answers with an error, the random values are
  1/2, 1/4 and 7/8, the encyclopedia has no page and the site has the marker; the total
  48 is 22 + 0 + 12 + 14.
\<close>

theorem fallback_total_is_sum_of_breakdown_witness:
  "(\<exists>breakdown (recall::int) (wiki::int) (seo::int) (platforms::int).
     get_property sample_platform
       (scoreData (calculateLocalScore sample_platform quota_world ''https://example.com'' initial))
       ''breakdown'' = Inr breakdown \<and>
     Object_keys sample_platform breakdown = Inr [''recall'', ''wiki'', ''seo'', ''platforms''] \<and>
     get_property sample_platform breakdown ''recall'' = Inr (Num (of_int recall)) \<and>
     get_property sample_platform breakdown ''wiki'' = Inr (Num (of_int wiki)) \<and>
     get_property sample_platform breakdown ''seo'' = Inr (Num (of_int seo)) \<and>
     get_property sample_platform breakdown ''platforms'' = Inr (Num (of_int platforms)) \<and>
     get_property sample_platform
       (scoreData (calculateLocalScore sample_platform quota_world ''https://example.com'' initial))
       ''total'' = Inr (Num (of_int (recall + wiki + seo + platforms))) \<and>
     platforms \<le> 15 \<and>
     get_property sample_platform
       (scoreData (calculateLocalScore sample_platform quota_world ''https://example.com'' initial))
       ''suggestions'' = Inr (Arr []) \<and>
     get_property sample_platform
       (scoreData (calculateLocalScore sample_platform quota_world ''https://example.com'' initial))
       ''history_links'' = Inr (Arr [])) \<and>
   get_property sample_platform
     (scoreData (calculateLocalScore sample_platform quota_world ''https://example.com'' initial))
     ''total'' = Inr (Num 48)"
proof -
  have "get_property sample_platform
     (scoreData (calculateLocalScore sample_platform quota_world ''https://example.com'' initial))
     ''total'' = Inr (Num 48)"
    by (simp add: local_total quota_world_def failing_world_def error_response_def
        checkWikipedia_def checkSchemaMarkup_def wikipedia_request_def relay_request_def
        index_def one_half_def one_quarter_def seven_eighths_def
        Math_floor_def multiply_def excess_small round_half_even_def Let_def)
  with fallback_total_is_sum_of_breakdown
    [of sample_platform quota_world "''https://example.com''" initial]
  show ?thesis by blast
qed

text \<open>
  C4. When the three values of \<^verbatim>\<open>Math.random()\<close> are doubles in \<open>[0, 1)\<close>, the fallback
  stores as recall \<open>10 + \<lfloor>random1 * 25\<rfloor>\<close>, which lies between 10 and 34; as seo
  \<open>10 + \<lfloor>random2 * 10\<rfloor>\<close>, which lies between 10 and 19; as wiki the result of the
  encyclopedia check, which is 0 or 20; and as platforms \<open>min 15 (r + schemaScore)\<close>,
  where \<open>r = 5 + \<lfloor>random3 * 5\<rfloor>\<close> lies between 5 and 9 and \<open>schemaScore\<close>, the result
  of the markup check, is 0 or 5. The products are the rounded products of doubles.
\<close>

theorem fallback_ranges:
  assumes "is_random (random1 w)" and "is_random (random2 w)" and "is_random (random3 w)"
  shows "\<exists>breakdown (recall::int) (seo::int) (r::int).
     recall = int (Math_floor (multiply (random1 w) 25)) + 10 \<and>
     seo = int (Math_floor (multiply (random2 w) 10)) + 10 \<and>
     r = int (Math_floor (multiply (random3 w) 5)) + 5 \<and>
     get_property P (scoreData (calculateLocalScore P w u st)) ''breakdown'' = Inr breakdown \<and>
     get_property P breakdown ''recall'' = Inr (Num (of_int recall)) \<and>
     10 \<le> recall \<and> recall \<le> 34 \<and>
     get_property P breakdown ''seo'' = Inr (Num (of_int seo)) \<and>
     10 \<le> seo \<and> seo \<le> 19 \<and>
     get_property P breakdown ''wiki''
       = Inr (Num (of_int (checkWikipedia P w (extractBrandName P u)))) \<and>
     checkWikipedia P w (extractBrandName P u) \<in> {0, 20} \<and>
     get_property P breakdown ''platforms''
       = Inr (Num (of_int (min 15 (r + checkSchemaMarkup w u)))) \<and>
     5 \<le> r \<and> r \<le> 9 \<and>
     checkSchemaMarkup w u \<in> {0, 5}"
proof -
  define recall where "recall = int (Math_floor (multiply (random1 w) 25)) + 10"
  define seo where "seo = int (Math_floor (multiply (random2 w) 10)) + 10"
  define r where "r = int (Math_floor (multiply (random3 w) 5)) + 5"
  have b1: "10 \<le> recall \<and> recall \<le> 34"
    using random_floor_less [OF assms(1), of 25] by (simp add: recall_def)
  have b2: "10 \<le> seo \<and> seo \<le> 19"
    using random_floor_less [OF assms(2), of 10] by (simp add: seo_def)
  have b3: "5 \<le> r \<and> r \<le> 9"
    using random_floor_less [OF assms(3), of 5] by (simp add: r_def)
  have wk: "checkWikipedia P w (extractBrandName P u) \<in> {0, 20}"
    using checkWikipedia_cases [of P w "extractBrandName P u"] by auto
  have sc: "checkSchemaMarkup w u \<in> {0, 5}"
    using checkSchemaMarkup_cases [of w u] by auto
  let ?b = "Obj [(''recall'', Num (of_int recall)),
               (''wiki'', Num (of_int (checkWikipedia P w (extractBrandName P u)))),
               (''seo'', Num (of_int seo)),
               (''platforms'', Num (of_int (min 15 (r + checkSchemaMarkup w u))))]"
  have b: "get_property P (scoreData (calculateLocalScore P w u st)) ''breakdown'' = Inr ?b"
    unfolding local_breakdown recall_def seo_def r_def by (rule refl)
  have f1: "get_property P ?b ''recall'' = Inr (Num (of_int recall))"
    by simp
  have f2: "get_property P ?b ''seo'' = Inr (Num (of_int seo))"
    by simp
  have f3: "get_property P ?b ''wiki''
      = Inr (Num (of_int (checkWikipedia P w (extractBrandName P u))))"
    by simp
  have f4: "get_property P ?b ''platforms''
      = Inr (Num (of_int (min 15 (r + checkSchemaMarkup w u))))"
    by simp
  show ?thesis
    using recall_def seo_def r_def b f1 f2 f3 f4 b1 b2 b3 wk sc by blast
qed

text \<open>
  On samples: with the doubles nearest to 0.24, 0.7 and 0.6 the three draws are 6, 7 and
  3, as the processor computes them; with zero they are the least, 0, 0 and 0; with the
  largest double below 1 they are the greatest, 24, 9 and 4.
\<close>

theorem fallback_ranges_witness:
  "is_random (random1 rounding_world) \<and> is_random (random2 rounding_world) \<and>
   is_random (random3 rounding_world) \<and>
   (\<exists>breakdown (recall::int) (seo::int) (r::int).
     recall = int (Math_floor (multiply (random1 rounding_world) 25)) + 10 \<and>
     seo = int (Math_floor (multiply (random2 rounding_world) 10)) + 10 \<and>
     r = int (Math_floor (multiply (random3 rounding_world) 5)) + 5 \<and>
     get_property sample_platform
       (scoreData (calculateLocalScore sample_platform rounding_world ''https://example.com'' initial))
       ''breakdown'' = Inr breakdown \<and>
     get_property sample_platform breakdown ''recall'' = Inr (Num (of_int recall)) \<and>
     10 \<le> recall \<and> recall \<le> 34 \<and>
     get_property sample_platform breakdown ''seo'' = Inr (Num (of_int seo)) \<and>
     10 \<le> seo \<and> seo \<le> 19 \<and>
     get_property sample_platform breakdown ''wiki''
       = Inr (Num (of_int (checkWikipedia sample_platform rounding_world
            (extractBrandName sample_platform ''https://example.com'')))) \<and>
     checkWikipedia sample_platform rounding_world
       (extractBrandName sample_platform ''https://example.com'') \<in> {0, 20} \<and>
     get_property sample_platform breakdown ''platforms''
       = Inr (Num (of_int (min 15 (r + checkSchemaMarkup rounding_world ''https://example.com'')))) \<and>
     5 \<le> r \<and> r \<le> 9 \<and>
     checkSchemaMarkup rounding_world ''https://example.com'' \<in> {0, 5}) \<and>
   Math_floor (multiply (random1 rounding_world) 25) = 6 \<and>
   Math_floor (multiply (random2 rounding_world) 10) = 7 \<and>
   Math_floor (multiply (random3 rounding_world) 5) = 3 \<and>
   is_random double_zero \<and>
   Math_floor (multiply double_zero 25) = 0 \<and>
   Math_floor (multiply double_zero 10) = 0 \<and>
   Math_floor (multiply double_zero 5) = 0 \<and>
   is_random largest_below_1 \<and>
   Math_floor (multiply largest_below_1 25) = 24 \<and>
   Math_floor (multiply largest_below_1 10) = 9 \<and>
   Math_floor (multiply largest_below_1 5) = 4"
proof -
  have r: "is_random (random1 rounding_world)" "is_random (random2 rounding_world)"
    "is_random (random3 rounding_world)"
    by (simp_all add: rounding_world_def is_random_def double_0_24_def double_0_7_def
        double_0_6_def)
  have v: "Math_floor (multiply (random1 rounding_world) 25) = 6"
    "Math_floor (multiply (random2 rounding_world) 10) = 7"
    "Math_floor (multiply (random3 rounding_world) 5) = 3"
    by (simp_all add: rounding_world_def double_0_24_def double_0_7_def double_0_6_def
        Math_floor_def multiply_def excess_small excess_large round_half_even_def Let_def)
  have z: "is_random double_zero" "Math_floor (multiply double_zero 25) = 0"
    "Math_floor (multiply double_zero 10) = 0" "Math_floor (multiply double_zero 5) = 0"
    by (simp_all add: double_zero_def is_random_def
        Math_floor_def multiply_def excess_small round_half_even_def Let_def)
  have l: "is_random largest_below_1" "Math_floor (multiply largest_below_1 25) = 24"
    "Math_floor (multiply largest_below_1 10) = 9" "Math_floor (multiply largest_below_1 5) = 4"
    by (simp_all add: largest_below_1_def is_random_def
        Math_floor_def multiply_def excess_small excess_large round_half_even_def Let_def)
  from fallback_ranges [OF r, where P = sample_platform
      and u = "''https://example.com''" and st = initial] r v z l
  show ?thesis by blast
qed

text \<open>
  C10. When the three values of \<^verbatim>\<open>Math.random()\<close> are doubles in \<open>[0, 1)\<close>, the clamp at
  15 never binds: platforms is the unclamped sum \<open>\<lfloor>random3 * 5\<rfloor> + 5 + schemaScore\<close> and
  is at most 14. The total, the sum of the four sub-scores, then lies between 25 and 87.
\<close>

theorem fallback_platforms_at_most_14:
  assumes "is_random (random1 w)" and "is_random (random2 w)" and "is_random (random3 w)"
  shows "\<exists>breakdown (platforms::int) (total::int).
     platforms = int (Math_floor (multiply (random3 w) 5)) + 5 + checkSchemaMarkup w u \<and>
     total = int (Math_floor (multiply (random1 w) 25)) + 10
       + checkWikipedia P w (extractBrandName P u)
       + (int (Math_floor (multiply (random2 w) 10)) + 10) + platforms \<and>
     get_property P (scoreData (calculateLocalScore P w u st)) ''breakdown'' = Inr breakdown \<and>
     get_property P breakdown ''platforms'' = Inr (Num (of_int platforms)) \<and>
     platforms \<le> 14 \<and>
     get_property P (scoreData (calculateLocalScore P w u st)) ''total''
       = Inr (Num (of_int total)) \<and>
     25 \<le> total \<and> total \<le> 87"
proof -
  have r1: "Math_floor (multiply (random1 w) 25) < 25"
    by (rule random_floor_less [OF assms(1)]) simp
  have r2: "Math_floor (multiply (random2 w) 10) < 10"
    by (rule random_floor_less [OF assms(2)]) simp
  have r3: "Math_floor (multiply (random3 w) 5) < 5"
    by (rule random_floor_less [OF assms(3)]) simp
  have wk: "checkWikipedia P w (extractBrandName P u) = 0
      \<or> checkWikipedia P w (extractBrandName P u) = 20"
    by (rule checkWikipedia_cases)
  have sc: "checkSchemaMarkup w u = 0 \<or> checkSchemaMarkup w u = 5"
    by (rule checkSchemaMarkup_cases)
  define platforms where
    "platforms = int (Math_floor (multiply (random3 w) 5)) + 5 + checkSchemaMarkup w u"
  define total where "total = int (Math_floor (multiply (random1 w) 25)) + 10
       + checkWikipedia P w (extractBrandName P u)
       + (int (Math_floor (multiply (random2 w) 10)) + 10) + platforms"
  have p14: "platforms \<le> 14"
    unfolding platforms_def using r3 sc by linarith
  have clamp: "min 15 (int (Math_floor (multiply (random3 w) 5)) + 5 + checkSchemaMarkup w u)
      = platforms"
    using p14 by (simp add: platforms_def)
  have lo: "25 \<le> total"
    unfolding total_def platforms_def using wk sc by linarith
  have hi: "total \<le> 87"
    unfolding total_def using r1 r2 p14 wk by linarith
  have tot: "get_property P (scoreData (calculateLocalScore P w u st)) ''total''
       = Inr (Num (of_int total))"
    unfolding local_total clamp total_def by (rule refl)
  let ?b = "Obj [(''recall'', Num (of_int (int (Math_floor (multiply (random1 w) 25)) + 10))),
               (''wiki'', Num (of_int (checkWikipedia P w (extractBrandName P u)))),
               (''seo'', Num (of_int (int (Math_floor (multiply (random2 w) 10)) + 10))),
               (''platforms'', Num (of_int platforms))]"
  have b: "get_property P (scoreData (calculateLocalScore P w u st)) ''breakdown'' = Inr ?b"
    unfolding local_breakdown clamp by (rule refl)
  have pl: "get_property P ?b ''platforms'' = Inr (Num (of_int platforms))"
    by simp
  show ?thesis
    using platforms_def total_def b pl p14 tot lo hi by blast
qed

text \<open>
  Both bounds of the total are reached: 25 when nothing can be reached and the random
  values are zero, 87 when both checks succeed and the random values are the largest.
\<close>

theorem fallback_platforms_at_most_14_witness:
  "is_random (random1 best_world) \<and> is_random (random2 best_world) \<and>
   is_random (random3 best_world) \<and>
   (\<exists>breakdown (platforms::int) (total::int).
     platforms = int (Math_floor (multiply (random3 best_world) 5)) + 5
       + checkSchemaMarkup best_world ''https://example.com'' \<and>
     total = int (Math_floor (multiply (random1 best_world) 25)) + 10
       + checkWikipedia sample_platform best_world
           (extractBrandName sample_platform ''https://example.com'')
       + (int (Math_floor (multiply (random2 best_world) 10)) + 10) + platforms \<and>
     get_property sample_platform
       (scoreData (calculateLocalScore sample_platform best_world ''https://example.com'' initial))
       ''breakdown'' = Inr breakdown \<and>
     get_property sample_platform breakdown ''platforms'' = Inr (Num (of_int platforms)) \<and>
     platforms \<le> 14 \<and>
     get_property sample_platform
       (scoreData (calculateLocalScore sample_platform best_world ''https://example.com'' initial))
       ''total'' = Inr (Num (of_int total)) \<and>
     25 \<le> total \<and> total \<le> 87) \<and>
   get_property sample_platform
     (scoreData (calculateLocalScore sample_platform best_world ''https://example.com'' initial))
     ''total'' = Inr (Num 87) \<and>
   get_property sample_platform
     (scoreData (calculateLocalScore sample_platform offline_world ''https://example.com'' initial))
     ''total'' = Inr (Num 25)"
proof -
  have r: "is_random (random1 best_world)" "is_random (random2 best_world)"
    "is_random (random3 best_world)"
    by (simp_all add: best_world_def is_random_def largest_below_1_def)
  have hi: "get_property sample_platform
     (scoreData (calculateLocalScore sample_platform best_world ''https://example.com'' initial))
     ''total'' = Inr (Num 87)"
    by (simp add: local_total best_world_def largest_below_1_def
        checkWikipedia_def checkSchemaMarkup_def wikipedia_request_def relay_request_def
        index_def Math_floor_def multiply_def excess_small excess_large round_half_even_def
        Let_def)
  have lo: "get_property sample_platform
     (scoreData (calculateLocalScore sample_platform offline_world ''https://example.com'' initial))
     ''total'' = Inr (Num 25)"
    by (simp add: local_total offline_world_def double_zero_def
        checkWikipedia_def checkSchemaMarkup_def
        Math_floor_def multiply_def excess_small round_half_even_def Let_def)
  from fallback_platforms_at_most_14 [OF r, where P = sample_platform
      and u = "''https://example.com''" and st = initial]
    r hi lo
  show ?thesis by blast
qed

section \<open>Identity derivation\<close>

text \<open>
  C2. For a URL that parses, the brand should be the first label of the host name once a
  leading \<^verbatim>\<open>www.\<close> is stripped. \<open>extractBrandName\<close> removes the first
  \<^verbatim>\<open>www.\<close> wherever it stands: for the host \<^verbatim>\<open>awww.example.com\<close>, which has three
  labels and no leading \<^verbatim>\<open>www.\<close>, it returns \<^verbatim>\<open>aexample\<close>, while the first label
  is \<^verbatim>\<open>awww\<close>.
\<close>

theorem extractBrandName_removes_inner_www:
  "URL_hostname sample_platform ''https://awww.example.com'' = Some ''awww.example.com'' \<and>
   length (split CHR ''.'' ''awww.example.com'') = 3 \<and>
   deriveBrand_spec ''awww.example.com'' = ''awww'' \<and>
   extractBrandName sample_platform ''https://awww.example.com'' = ''aexample''"
  by (simp add: sample_platform_def extractBrandName_def deriveBrand_spec_def strip_leading_def)

text \<open>
  C7. For a string that the URL parser rejects, \<open>extractBrandName\<close> returns the
  lower-cased string cut before its first dot (all of it when it has no dot), the element
  it reads at index 0 exists, and \<open>fetchLogo\<close> returns the empty string. Both functions
  catch the parser's exception and have no other statement that throws: they return a
  string for every input.
\<close>

theorem unparsable_url_brand_and_logo:
  assumes "URL_hostname P s = None"
  shows "extractBrandName P s = takeWhile (\<lambda>c. c \<noteq> CHR ''.'') (toLowerCase P s) \<and>
         index (split CHR ''.'' (toLowerCase P s)) 0 = Some (extractBrandName P s) \<and>
         fetchLogo P s = []"
  using assms split_not_Nil [of "CHR ''.''" "toLowerCase P s"]
  by (simp add: extractBrandName_def fetchLogo_def split_first index_def)

theorem unparsable_url_brand_and_logo_witness:
  "URL_hostname sample_platform ''Not A.Url'' = None \<and>
   extractBrandName sample_platform ''Not A.Url'' = ''not a'' \<and>
   fetchLogo sample_platform ''Not A.Url'' = [] \<and>
   URL_hostname sample_platform ''not a url'' = None \<and>
   extractBrandName sample_platform ''not a url'' = ''not a url'' \<and>
   fetchLogo sample_platform ''not a url'' = []"
  using unparsable_url_brand_and_logo [of sample_platform "''Not A.Url''"]
    unparsable_url_brand_and_logo [of sample_platform "''not a url''"]
  by (simp add: sample_platform_def ascii_lower_def)

section \<open>The two checks\<close>

text \<open>
  C9. \<open>checkWikipedia\<close> returns 20 exactly when the request and the parsing of its
  body succeed, \<^verbatim>\<open>data.query.pages\<close> can be read and is truthy, and the first key of
  the page map is not \<^verbatim>\<open>-1\<close>; in every other case (a rejected request, a body that
  does not parse, no page map, the first key \<^verbatim>\<open>-1\<close>) it returns 0. \<open>checkSchemaMarkup\<close>
  returns 5 exactly when the request and the reading of its body succeed and the body
  contains \<^verbatim>\<open>schema.org\<close>, and 0 in every other case. Both are total: no
  exception leaves them.
\<close>

theorem checks_resolve_to_scores:
  "checkWikipedia P w brand =
    (if (\<exists>response data query pages keys.
           fetch w (wikipedia_request brand) = Inr response \<and>
           json_body response = Inr data \<and>
           get_property P data ''query'' = Inr query \<and>
           get_property P query ''pages'' = Inr pages \<and>
           truthy pages \<and>
           Object_keys P pages = Inr keys \<and>
           index keys 0 \<noteq> Some ''-1'')
     then 20 else 0) \<and>
   checkSchemaMarkup w inputUrl =
    (if (\<exists>res t pre post.
           fetch w (relay_request inputUrl) = Inr res \<and>
           text_body res = Inr t \<and>
           t = pre @ ''schema.org'' @ post)
     then 5 else 0)"
proof
  show "checkWikipedia P w brand =
    (if (\<exists>response data query pages keys.
           fetch w (wikipedia_request brand) = Inr response \<and>
           json_body response = Inr data \<and>
           get_property P data ''query'' = Inr query \<and>
           get_property P query ''pages'' = Inr pages \<and>
           truthy pages \<and>
           Object_keys P pages = Inr keys \<and>
           index keys 0 \<noteq> Some ''-1'')
     then 20 else 0)"
    unfolding checkWikipedia_def
    by (auto split: sum.splits if_splits simp: and_then_Inr_iff and_then_Inl_iff)
  show "checkSchemaMarkup w inputUrl =
    (if (\<exists>res t pre post.
           fetch w (relay_request inputUrl) = Inr res \<and>
           text_body res = Inr t \<and>
           t = pre @ ''schema.org'' @ post)
     then 5 else 0)"
    unfolding checkSchemaMarkup_def
    by (auto split: sum.splits if_splits
        simp: and_then_Inr_iff and_then_Inl_iff includes_str_iff)
qed

theorem checks_resolve_to_scores_witness:
  "checkWikipedia sample_platform quota_world ''example'' = 0 \<and>
   checkSchemaMarkup quota_world ''https://example.com'' = 5 \<and>
   checkWikipedia sample_platform healthy_world ''example'' = 20 \<and>
   checkSchemaMarkup healthy_world ''https://example.com'' = 0"
proof -
  have a: "\<exists>response data query pages keys.
           fetch healthy_world (wikipedia_request ''example'') = Inr response \<and>
           json_body response = Inr data \<and>
           get_property sample_platform data ''query'' = Inr query \<and>
           get_property sample_platform query ''pages'' = Inr pages \<and>
           truthy pages \<and>
           Object_keys sample_platform pages = Inr keys \<and>
           index keys 0 \<noteq> Some ''-1''"
    by (simp add: healthy_world_def wikipedia_request_def index_def)
  have b: "\<not> (\<exists>res t pre post.
           fetch healthy_world (relay_request ''https://example.com'') = Inr res \<and>
           text_body res = Inr t \<and>
           t = pre @ ''schema.org'' @ post)"
    by (simp add: healthy_world_def relay_request_def)
  have c: "checkWikipedia sample_platform quota_world ''example'' = 0"
    by (simp add: checkWikipedia_def quota_world_def failing_world_def
        wikipedia_request_def index_def)
  have d: "checkSchemaMarkup quota_world ''https://example.com'' = 5"
    by (simp add: checkSchemaMarkup_def quota_world_def failing_world_def relay_request_def)
  from checks_resolve_to_scores
    [of sample_platform healthy_world "''example''" "''https://example.com''"] a b c d
  show ?thesis by simp
qed

section \<open>The calculation and its guard\<close>

text \<open>
  When the component has been rendered since the last state update, the guard does what
  it is there for: a call while a calculation runs, or for the URL already recorded,
  returns at once, changes nothing and sends nothing; and the button lets no click
  through while the URL is empty.
\<close>

lemma calculateScore_guard_rendered:
  "(isCalculating st \<or> url st = lastCalculatedUrl st \<longrightarrow>
      calculateScore_begin P st = (st, None) \<and> calculateScore P w st = st) \<and>
   (\<not> isCalculating st \<and> url st \<noteq> lastCalculatedUrl st \<longrightarrow>
      calculateScore_begin P st =
        (st\<lparr>isCalculating := True, error := [], lastCalculatedUrl := url st\<rparr>,
         Some (score_request P (url st)))) \<and>
   (isCalculating st \<or> url st = [] \<or> url st = lastCalculatedUrl st \<longrightarrow>
      calculate_button P st st = (st, None))"
  by (auto simp add: calculateScore_begin_def calculateScore_call_def calculateScore_def
      calculate_button_def)

text \<open>
  In a state where no calculation runs and the URL differs from the last one recorded, a
  call sends one request and, before any answer, sets \<^verbatim>\<open>isCalculating\<close> and records the
  URL. If the component is rendered before the next call, that call sends nothing and
  changes nothing, while the request is pending and after it has settled; and
  \<^verbatim>\<open>isCalculating\<close> is cleared when the request settles, whatever the answer.
\<close>

lemma rendered_second_call_sends_nothing:
  assumes "\<not> isCalculating st" and "url st \<noteq> lastCalculatedUrl st"
  shows "\<exists>st1. calculateScore_begin P st = (st1, Some (score_request P (url st))) \<and>
     isCalculating st1 \<and> lastCalculatedUrl st1 = url st \<and> scoreData st1 = scoreData st \<and>
     calculateScore_begin P st1 = (st1, None) \<and>
     \<not> isCalculating (calculateScore_settle P w (url st) st1) \<and>
     calculateScore_begin P (calculateScore_settle P w (url st) st1)
       = (calculateScore_settle P w (url st) st1, None)"
  using assms
  by (simp add: calculateScore_begin_def calculateScore_call_def settle_not_calculating
      settle_url settle_last)

lemma first_click: "calculate_button sample_platform typed_state typed_state =
    (inflight_state, Some (score_request sample_platform ''https://example.com''))"
  by (simp add: calculate_button_def calculateScore_call_def calculateScore_begin_def
      inflight_state_def typed_state_def setUrl_def initial_def)

lemma inflight_state_eq:
  "inflight_state = typed_state\<lparr>isCalculating := True, lastCalculatedUrl := ''https://example.com''\<rparr>"
  by (simp add: calculateScore_call_def calculateScore_begin_def
      inflight_state_def typed_state_def setUrl_def initial_def)

text \<open>
  C3. A call of \<^verbatim>\<open>calculateScore\<close> while a calculation is in flight should return at
  once. The guard reads the \<^verbatim>\<open>isCalculating\<close> of the render the handler belongs to, and
  the setters of the first call only schedule the next render. So when the button of the
  render of \<^verbatim>\<open>https://example.com\<close> is clicked again before that render is replaced,
  a calculation is in flight, and yet the call passes the guard and sends a request: it
  is not a no-op.
\<close>

theorem call_in_flight_from_same_render_sends:
  "\<not> isCalculating typed_state \<and>
   isCalculating inflight_state \<and>
   url inflight_state = ''https://example.com'' \<and>
   calculateScore_call sample_platform typed_state inflight_state \<noteq> (inflight_state, None) \<and>
   snd (calculate_button sample_platform typed_state inflight_state)
     = Some (score_request sample_platform ''https://example.com'')"
  by (simp add: inflight_state_eq calculate_button_def calculateScore_call_def
      typed_state_def setUrl_def initial_def)

text \<open>
  C5. Two calls in immediate succession for the same URL should send one request. When
  both clicks reach the button of the same render, each runs the closure in which
  \<^verbatim>\<open>isCalculating\<close> is false and the recorded URL is empty: the first sets the state
  and sends its request, the second passes the same guard and sends a second request.
\<close>

theorem two_clicks_on_one_render_send_two_requests:
  "calculate_button sample_platform typed_state typed_state =
     (inflight_state, Some (score_request sample_platform ''https://example.com'')) \<and>
   calculate_button sample_platform typed_state inflight_state =
     (inflight_state, Some (score_request sample_platform ''https://example.com'')) \<and>
   length (List.map_filter snd
     [calculate_button sample_platform typed_state typed_state,
      calculate_button sample_platform typed_state inflight_state]) = 2"
proof -
  have second: "calculate_button sample_platform typed_state inflight_state =
     (inflight_state, Some (score_request sample_platform ''https://example.com''))"
    by (simp add: inflight_state_eq calculate_button_def calculateScore_call_def
        typed_state_def setUrl_def initial_def)
  show ?thesis
    by (simp add: first_click second)
qed

section \<open>A failing endpoint\<close>

text \<open>
  C6, as the code has it. When the scoring endpoint answers with a status that is not a
  success, the error shown after the calculation is:
  the \<^verbatim>\<open>detail\<close> of the body when that is a non-empty string (its conversion to a
  string when it is another truthy value);
  \<^verbatim>\<open>Failed to calculate score\<close> when the body parses to a value other than \<^verbatim>\<open>null\<close>
  whose \<^verbatim>\<open>detail\<close> is missing or falsy;
  the message of the exception when one is thrown, which is the parser's when the body
  does not parse and the \<^verbatim>\<open>TypeError\<close> of reading \<^verbatim>\<open>detail\<close> when the body is
  \<^verbatim>\<open>null\<close>;
  and \<^verbatim>\<open>An error occurred while calculating the score\<close> where the message so
  obtained is empty.
  In each case the fallback score is stored next to the error: it is not \<^verbatim>\<open>null\<close>, its
  suggestions and history\_links are empty, and \<^verbatim>\<open>isCalculating\<close> is cleared.
\<close>

theorem failing_endpoint_error_and_fallback:
  assumes "fetch w (score_request P u) = Inr response" and "\<not> ok response"
  shows
   "error (calculateScore_settle P w u st) =
      (let m = (case json_body response of
                  Inl e \<Rightarrow> message e
                | Inr Null \<Rightarrow> property_TypeError P Null ''detail''
                | Inr Undefined \<Rightarrow> property_TypeError P Undefined ''detail''
                | Inr (Obj kvs) \<Rightarrow>
                    (case map_of kvs ''detail'' of
                       None \<Rightarrow> ''Failed to calculate score''
                     | Some (Str d) \<Rightarrow> if d = [] then ''Failed to calculate score'' else d
                     | Some v \<Rightarrow> if truthy v then ToString P v else ''Failed to calculate score'')
                | Inr other \<Rightarrow> ''Failed to calculate score'')
       in if m = [] then ''An error occurred while calculating the score'' else m) \<and>
    scoreData (calculateScore_settle P w u st) = scoreData (calculateLocalScore P w u st) \<and>
    scoreData (calculateScore_settle P w u st) \<noteq> Null \<and>
    get_property P (scoreData (calculateScore_settle P w u st)) ''suggestions'' = Inr (Arr []) \<and>
    get_property P (scoreData (calculateScore_settle P w u st)) ''history_links'' = Inr (Arr []) \<and>
    \<not> isCalculating (calculateScore_settle P w u st)"
proof -
  obtain x where x: "remote_score P w u = Inl x"
    using remote_score_fails [OF assms] by blast
  have sd: "scoreData (calculateScore_settle P w u st) = scoreData (calculateLocalScore P w u st)"
    unfolding settle_fallback [OF x] by (simp add: calculateLocalScore_def Let_def)
  have e: "error (calculateScore_settle P w u st) =
      (let m = (case json_body response of
                  Inl e \<Rightarrow> message e
                | Inr Null \<Rightarrow> property_TypeError P Null ''detail''
                | Inr Undefined \<Rightarrow> property_TypeError P Undefined ''detail''
                | Inr (Obj kvs) \<Rightarrow>
                    (case map_of kvs ''detail'' of
                       None \<Rightarrow> ''Failed to calculate score''
                     | Some (Str d) \<Rightarrow> if d = [] then ''Failed to calculate score'' else d
                     | Some v \<Rightarrow> if truthy v then ToString P v else ''Failed to calculate score'')
                | Inr other \<Rightarrow> ''Failed to calculate score'')
       in if m = [] then ''An error occurred while calculating the score'' else m)"
    by (auto simp add: calculateScore_settle_def remote_score_not_ok [OF assms] local_error
        Let_def split: sum.splits js_value.splits option.splits)
  have n: "scoreData (calculateLocalScore P w u st) \<noteq> Null"
    by (simp add: calculateLocalScore_def Let_def)
  have s: "get_property P (scoreData (calculateLocalScore P w u st)) ''suggestions'' = Inr (Arr [])"
    by (simp add: calculateLocalScore_def Let_def)
  have h: "get_property P (scoreData (calculateLocalScore P w u st)) ''history_links'' = Inr (Arr [])"
    by (simp add: calculateLocalScore_def Let_def)
  have c: "\<not> isCalculating (calculateScore_settle P w u st)"
    by (rule settle_not_calculating)
  from n s h have "scoreData (calculateScore_settle P w u st) \<noteq> Null"
    and "get_property P (scoreData (calculateScore_settle P w u st)) ''suggestions'' = Inr (Arr [])"
    and "get_property P (scoreData (calculateScore_settle P w u st)) ''history_links'' = Inr (Arr [])"
    unfolding sd by simp_all
  with e sd c show ?thesis by blast
qed

text \<open>
  The cases on samples: the bodies \<^verbatim>\<open>{"detail": "quota exceeded"}\<close>, \<^verbatim>\<open>{}\<close> and
  \<^verbatim>\<open>null\<close>, and a body that does not parse.
\<close>

theorem failing_endpoint_error_and_fallback_witness:
  "fetch quota_world (score_request sample_platform ''https://example.com'')
     = Inr (error_response (Inr (Obj [(''detail'', Str ''quota exceeded'')]))) \<and>
   \<not> ok (error_response (Inr (Obj [(''detail'', Str ''quota exceeded'')]))) \<and>
   error (calculateScore_settle sample_platform quota_world ''https://example.com'' inflight_state)
     = ''quota exceeded'' \<and>
   scoreData (calculateScore_settle sample_platform quota_world ''https://example.com'' inflight_state)
     \<noteq> Null \<and>
   get_property sample_platform
     (scoreData (calculateScore_settle sample_platform quota_world ''https://example.com'' inflight_state))
     ''suggestions'' = Inr (Arr []) \<and>
   get_property sample_platform
     (scoreData (calculateScore_settle sample_platform quota_world ''https://example.com'' inflight_state))
     ''history_links'' = Inr (Arr []) \<and>
   fetch (failing_world (Inr (Obj []))) (score_request sample_platform ''https://example.com'')
     = Inr (error_response (Inr (Obj []))) \<and>
   error (calculateScore_settle sample_platform (failing_world (Inr (Obj [])))
       ''https://example.com'' inflight_state)
     = ''Failed to calculate score'' \<and>
   fetch (failing_world (Inr Null)) (score_request sample_platform ''https://example.com'')
     = Inr (error_response (Inr Null)) \<and>
   error (calculateScore_settle sample_platform (failing_world (Inr Null))
       ''https://example.com'' inflight_state)
     = ''Cannot read properties of null'' \<and>
   fetch garbled_world (score_request sample_platform ''https://example.com'')
     = Inr (error_response (Inl (Error ''Unexpected end of JSON input''))) \<and>
   error (calculateScore_settle sample_platform garbled_world ''https://example.com'' inflight_state)
     = ''Unexpected end of JSON input''"
proof -
  have q: "fetch quota_world (score_request sample_platform ''https://example.com'')
      = Inr (error_response (Inr (Obj [(''detail'', Str ''quota exceeded'')])))"
    by (simp add: quota_world_def failing_world_def score_request_def)
  have m: "\<And>b. fetch (failing_world b) (score_request sample_platform ''https://example.com'')
      = Inr (error_response b)"
    by (simp add: failing_world_def score_request_def)
  have g: "fetch garbled_world (score_request sample_platform ''https://example.com'')
      = Inr (error_response (Inl (Error ''Unexpected end of JSON input'')))"
    by (simp add: garbled_world_def failing_world_def score_request_def)
  have nok: "\<And>b. \<not> ok (error_response b)"
    by (simp add: error_response_def)
  have jb: "\<And>b. json_body (error_response b) = b"
    by (simp add: error_response_def)
  note A = failing_endpoint_error_and_fallback [OF q nok, where st = inflight_state]
  note B = failing_endpoint_error_and_fallback [OF m nok, where st = inflight_state]
  note C = failing_endpoint_error_and_fallback [OF g nok, where st = inflight_state]
  have a1: "error (calculateScore_settle sample_platform quota_world ''https://example.com''
      inflight_state) = ''quota exceeded''"
    using A by (simp add: jb)
  have a2: "scoreData (calculateScore_settle sample_platform quota_world ''https://example.com''
      inflight_state) \<noteq> Null"
    using A by blast
  have a3: "get_property sample_platform
     (scoreData (calculateScore_settle sample_platform quota_world ''https://example.com'' inflight_state))
     ''suggestions'' = Inr (Arr [])"
    using A by blast
  have a4: "get_property sample_platform
     (scoreData (calculateScore_settle sample_platform quota_world ''https://example.com'' inflight_state))
     ''history_links'' = Inr (Arr [])"
    using A by blast
  have b1: "error (calculateScore_settle sample_platform (failing_world (Inr (Obj [])))
       ''https://example.com'' inflight_state) = ''Failed to calculate score''"
    using B [of "Inr (Obj [])"] by (simp add: jb)
  have b2: "error (calculateScore_settle sample_platform (failing_world (Inr Null))
       ''https://example.com'' inflight_state) = ''Cannot read properties of null''"
    using B [of "Inr Null"] by (simp add: jb sample_platform_def)
  have c1: "error (calculateScore_settle sample_platform garbled_world ''https://example.com''
      inflight_state) = ''Unexpected end of JSON input''"
    using C by (simp add: jb)
  show ?thesis
    using q m g nok a1 a2 a3 a4 b1 b2 c1 by blast
qed

text \<open>
  The claim C6 fails where the body does not parse: the error shown after a calculation
  for \<^verbatim>\<open>https://example.com\<close>, answered by an error status with an empty body, is the
  message of the JSON parser and none of the two generic messages of the component.
\<close>

theorem unparsable_error_body_shows_parser_message:
  "fetch garbled_world (score_request sample_platform ''https://example.com'')
     = Inr (error_response (Inl (Error ''Unexpected end of JSON input''))) \<and>
   \<not> ok (error_response (Inl (Error ''Unexpected end of JSON input''))) \<and>
   json_body (error_response (Inl (Error ''Unexpected end of JSON input'')))
     = Inl (Error ''Unexpected end of JSON input'') \<and>
   error (calculateScore sample_platform garbled_world typed_state)
     = ''Unexpected end of JSON input'' \<and>
   error (calculateScore sample_platform garbled_world typed_state)
     \<noteq> ''Failed to calculate score'' \<and>
   error (calculateScore sample_platform garbled_world typed_state)
     \<noteq> ''An error occurred while calculating the score''"
proof -
  have g: "fetch garbled_world (score_request sample_platform ''https://example.com'')
      = Inr (error_response (Inl (Error ''Unexpected end of JSON input'')))"
    by (simp add: garbled_world_def failing_world_def score_request_def)
  have r: "remote_score sample_platform garbled_world ''https://example.com''
      = Inl (Error ''Unexpected end of JSON input'')"
    by (simp add: remote_score_def g error_response_def)
  have e: "error (calculateScore sample_platform garbled_world typed_state)
      = ''Unexpected end of JSON input''"
    by (simp add: calculateScore_def calculateScore_begin_def calculateScore_call_def typed_state_def setUrl_def
        initial_def settle_fallback [OF r] local_error)
  show ?thesis
    unfolding e using g by (simp add: error_response_def)
qed

section \<open>Reset\<close>

text \<open>
  C8, as the code has it. \<^verbatim>\<open>resetScore\<close> puts the URL, the score, the logo, the last
  recorded URL and the error back to their initial values and leaves \<^verbatim>\<open>isCalculating\<close>
  as it is; so the state is the initial one when no calculation runs. A second reset
  changes nothing. Once a non-empty URL is typed again after a reset, it differs from the
  recorded one, and \<^verbatim>\<open>calculateScore\<close> sends its request when no calculation runs.
\<close>

theorem resetScore_clears_all_but_running:
  "resetScore st = initial\<lparr>isCalculating := isCalculating st\<rparr> \<and>
   (\<not> isCalculating st \<longrightarrow> resetScore st = initial) \<and>
   resetScore (resetScore st) = resetScore st \<and>
   (u \<noteq> [] \<longrightarrow>
      url (setUrl u (resetScore st)) \<noteq> lastCalculatedUrl (setUrl u (resetScore st))) \<and>
   (u \<noteq> [] \<and> \<not> isCalculating st \<longrightarrow>
      snd (calculateScore_begin P (setUrl u (resetScore st))) = Some (score_request P u))"
proof -
  have r: "resetScore st = initial\<lparr>isCalculating := isCalculating st\<rparr>"
    by (simp add: resetScore_def initial_def)
  have i: "\<not> isCalculating st \<longrightarrow> resetScore st = initial"
    by (simp add: r initial_def)
  have d: "resetScore (resetScore st) = resetScore st"
    by (simp add: resetScore_def)
  have l: "lastCalculatedUrl (setUrl u (resetScore st)) = []"
    and v: "url (setUrl u (resetScore st)) = u"
    and c: "isCalculating (setUrl u (resetScore st)) = isCalculating st"
    by (simp_all add: resetScore_def setUrl_def)
  have g: "u \<noteq> [] \<longrightarrow>
      url (setUrl u (resetScore st)) \<noteq> lastCalculatedUrl (setUrl u (resetScore st))"
    by (simp add: l v)
  have s: "u \<noteq> [] \<and> \<not> isCalculating st \<longrightarrow>
      snd (calculateScore_begin P (setUrl u (resetScore st))) = Some (score_request P u)"
    by (simp add: calculateScore_begin_def calculateScore_call_def l v c)
  from r i d g s show ?thesis by blast
qed

theorem resetScore_clears_all_but_running_witness:
  "\<not> isCalculating done_state \<and>
   calculateScore_begin sample_platform done_state = (done_state, None) \<and>
   resetScore done_state = initial \<and>
   resetScore (resetScore done_state) = resetScore done_state \<and>
   ''https://example.com'' \<noteq> [] \<and>
   url (setUrl ''https://example.com'' (resetScore done_state))
     \<noteq> lastCalculatedUrl (setUrl ''https://example.com'' (resetScore done_state)) \<and>
   snd (calculateScore_begin sample_platform (setUrl ''https://example.com'' (resetScore done_state)))
     = Some (score_request sample_platform ''https://example.com'')"
proof -
  have c: "\<not> isCalculating done_state"
    by (simp add: done_state_def typed_state_def setUrl_def initial_def
        calculateScore_def calculateScore_begin_def calculateScore_call_def settle_not_calculating)
  have l: "url done_state = lastCalculatedUrl done_state"
    by (simp add: done_state_def typed_state_def setUrl_def initial_def
        calculateScore_def calculateScore_begin_def calculateScore_call_def settle_last settle_url)
  have b: "calculateScore_begin sample_platform done_state = (done_state, None)"
    using l by (simp add: calculateScore_begin_def calculateScore_call_def)
  have ne: "''https://example.com'' \<noteq> []"
    by simp
  from resetScore_clears_all_but_running [of done_state "''https://example.com''" sample_platform]
    c b ne
  show ?thesis by blast
qed

text \<open>
  The claim C8 fails for \<^verbatim>\<open>isCalculating\<close>: a reset while a calculation runs leaves it
  set, and the state is not the initial one.
\<close>

theorem resetScore_keeps_isCalculating:
  "isCalculating inflight_state \<and>
   isCalculating (resetScore inflight_state) \<and>
   \<not> isCalculating initial \<and>
   resetScore inflight_state \<noteq> initial"
proof -
  have a: "isCalculating inflight_state"
    by (simp add: inflight_state_def typed_state_def setUrl_def initial_def
        calculateScore_begin_def calculateScore_call_def)
  then have b: "isCalculating (resetScore inflight_state)"
    by (simp add: resetScore_def)
  have c: "\<not> isCalculating initial"
    by (simp add: initial_def)
  from b c have "resetScore inflight_state \<noteq> initial"
    by auto
  with a b c show ?thesis by simp
qed

end
